theory Spec2Isabelle
  imports Main "HOL-Library.AList" "HOL-Library.Sublist" "HOL-Library.Multiset"
begin

section \<open>Data model\<close>

text \<open>
  The server keeps two process-wide objects: \<^verbatim>\<open>memoryStore\<close>, a JavaScript \<^verbatim>\<open>Map\<close> from
  topic name to topic object, and \<^verbatim>\<open>memoryStats\<close>, an object of five counters.

  JavaScript strings are modelled as \<^typ>\<open>string\<close>; one \<^typ>\<open>char\<close> stands for one UTF-16
  code unit in the range 0..255. The three importance labels of the schema (an enum of
  three one-character Chinese labels for low, medium and high, the default being medium)
  are the constructors \<open>Low\<close>, \<open>Medium\<close>, \<open>High\<close>.
  Timestamps are the milliseconds since the epoch that \<^verbatim>\<open>new Date().toISOString()\<close> renders
  and \<^verbatim>\<open>new Date(iso)\<close> reads back. The counters of the statistics are \<^typ>\<open>int\<close>.
\<close>

datatype importance = Low | Medium | High

text \<open>
  A metadata value is whatever \<^verbatim>\<open>z.record(z.any())\<close> lets through from the JSON request.
  \<^item> A finite number is held as the text that the number-to-string conversion of the
    runtime gives for it: \<^verbatim>\<open>String(n)\<close> and \<^verbatim>\<open>JSON.stringify(n)\<close> both write exactly this
    text (\<^verbatim>\<open>42\<close>, \<^verbatim>\<open>0.5\<close>, \<^verbatim>\<open>1e+21\<close>).
  \<^item> A number literal too large for a double is parsed to plus or minus \<^verbatim>\<open>Infinity\<close>.
  \<^item> An object is the list of its own properties in the order in which \<^verbatim>\<open>Object.keys\<close>
    and \<^verbatim>\<open>Object.values\<close> enumerate them: the keys that are array indices in ascending
    order first, then the other keys in the order of their creation; each key once.
\<close>

datatype jvalue =
    JNull
  | JBool bool
  | JNum string
  | JPosInfinity
  | JNegInfinity
  | JStr string
  | JArr "jvalue list"
  | JObj "(string \<times> jvalue) list"

text \<open>
  A memory record, as built in \<^verbatim>\<open>create_record\<close>:
  \<^verbatim>\<open>{ id, content, importance, context, metadata, createdAt, updatedAt }\<close>.
\<close>

record entry =
  r_id :: string
  r_content :: string
  r_importance :: importance
  r_context :: string
  r_metadata :: "(string \<times> jvalue) list"
  r_createdAt :: nat
  r_updatedAt :: nat

text \<open>
  A topic, as built in \<^verbatim>\<open>create_topic\<close>:
  \<^verbatim>\<open>{ id, name, description, tags, records, createdAt, updatedAt }\<close>.
\<close>

record topic =
  t_id :: string
  t_name :: string
  t_description :: string
  t_tags :: "string list"
  t_records :: "entry list"
  t_createdAt :: nat
  t_updatedAt :: nat

text \<open>The object \<^verbatim>\<open>memoryStats\<close> of \<^verbatim>\<open>stats.js\<close>; \<^verbatim>\<open>lastAccessTime\<close> starts as \<^verbatim>\<open>null\<close>.\<close>

record stats =
  totalTopics :: int
  totalRecords :: int
  totalMemorySize :: int
  lastAccessTime :: "nat option"
  accessCount :: int

text \<open>
  The \<^verbatim>\<open>Map\<close> keeps insertion order, so the store is an association list: \<^verbatim>\<open>has\<close> and
  \<^verbatim>\<open>get\<close> are \<^const>\<open>map_of\<close>, \<^verbatim>\<open>set\<close> is \<^const>\<open>AList.update\<close> (an existing key keeps its
  place, a new key goes to the end), \<^verbatim>\<open>delete\<close> is \<^const>\<open>AList.delete\<close> and \<^verbatim>\<open>size\<close> is
  \<^const>\<open>length\<close>. A \<^verbatim>\<open>Map\<close> holds each key once: \<open>distinct (map fst store)\<close>.
\<close>

record state =
  memoryStore :: "(string \<times> topic) list"
  memoryStats :: stats

definition initial_stats :: stats where
  "initial_stats =
     \<lparr>totalTopics = 0, totalRecords = 0, totalMemorySize = 0,
      lastAccessTime = None, accessCount = 0\<rparr>"

definition initial_state :: state where
  "initial_state = \<lparr>memoryStore = [], memoryStats = initial_stats\<rparr>"

text \<open>
  \<^verbatim>\<open>generateId()\<close> and \<^verbatim>\<open>getCurrentTimestamp()\<close> read the clock and the random generator.
  Their results are parameters of every operation: \<open>gen_id\<close> is the identifier produced in
  this call and \<open>clock k\<close> the result of the \<open>k\<close>-th call of \<^verbatim>\<open>getCurrentTimestamp()\<close> made
  by it, counted from 0 in evaluation order.
\<close>

record env =
  gen_id :: string
  clock :: "nat \<Rightarrow> nat"

section \<open>Errors and results\<close>

text \<open>
  Every operation answers with a text. The texts are modelled by one constructor per
  message template, carrying the values the template interpolates. The failure texts are
  grouped under the kinds of the specification:
  \<^item> \<open>ValidationError\<close>: the four messages saying that the record content, the record id,
    the topic name or the search keyword must not be empty;
  \<^item> \<open>NotFound\<close>: the messages saying that the topic does not exist, or that the topic has
    no record with the given id;
  \<^item> \<open>AlreadyExists\<close>: the message of \<^verbatim>\<open>create_topic\<close> on a present name, with the
    description, the tags and the record count of the existing topic;
  \<^item> \<open>ConfirmationRequired\<close>: the question of \<^verbatim>\<open>delete_topic\<close> without \<^verbatim>\<open>confirm\<close>, with
    the description, the tags, the record count and the creation time of the topic;
  \<^item> \<open>InternalFault\<close>: the \<^verbatim>\<open>catch\<close> branch of a handler.
\<close>

datatype invalid = EmptyContent | EmptyRecordId | EmptyTopicName | EmptyQuery

datatype missing = TopicAbsent | RecordAbsent

datatype error =
    ValidationError invalid
  | NotFound missing
  | AlreadyExists string "string list" nat
  | ConfirmationRequired string "string list" nat nat
  | InternalFault

datatype manage_ok =
    TopicCreated topic
  | RecordAdded entry nat
  | TopicUpdated topic
  | RecordUpdated entry
  | TopicDeleted string nat string nat
  | RecordDeleted entry nat

section \<open>utils.js\<close>

text \<open>
  \<^verbatim>\<open>calculateRecordSize(record) = JSON.stringify(record).length\<close>. The length of the JSON
  text is computed directly. A string is written between quotes; a quote, a backslash and
  the control characters with a short escape take two code units, the other control
  characters six (\<^verbatim>\<open>\u00XX\<close>).
\<close>

definition json_char_length :: "char \<Rightarrow> nat" where
  "json_char_length c =
     (let n = (of_char c :: nat) in
      if n = 34 \<or> n = 92 then 2
      else if n = 8 \<or> n = 9 \<or> n = 10 \<or> n = 12 \<or> n = 13 then 2
      else if n < 32 then 6
      else 1)"

definition json_string_length :: "string \<Rightarrow> nat" where
  "json_string_length s = 2 + sum_list (map json_char_length s)"

text \<open>
  A finite number is written as its text, an infinite one as \<^verbatim>\<open>null\<close>. Elements of an
  array and members of an object are separated by one comma; a member is its quoted key, a
  colon and its value.
\<close>

fun json_length :: "jvalue \<Rightarrow> nat" where
  "json_length JNull = 4"
| "json_length (JBool b) = (if b then 4 else 5)"
| "json_length (JNum t) = length t"
| "json_length JPosInfinity = 4"
| "json_length JNegInfinity = 4"
| "json_length (JStr s) = json_string_length s"
| "json_length (JArr vs) =
     2 + sum_list (map json_length vs) + (length vs - 1)"
| "json_length (JObj kvs) =
     2 + sum_list (map (\<lambda>kv. json_string_length (fst kv) + 1 + json_length (snd kv)) kvs)
       + (length kvs - 1)"

text \<open>
  \<^verbatim>\<open>toISOString()\<close> gives 24 code units (\<^verbatim>\<open>YYYY-MM-DDTHH:mm:ss.sssZ\<close>) up to the end of
  the year 9999 and 27 after it (\<^verbatim>\<open>+YYYYYY-...\<close>).
\<close>

definition iso_length :: "nat \<Rightarrow> nat" where
  "iso_length t = (if t < 253402300800000 then 24 else 27)"

text \<open>
  The serialised record is
  \<^verbatim>\<open>{"id":..,"content":..,"importance":..,"context":..,"metadata":..,"createdAt":..,"updatedAt":..}\<close>:
  two braces, six commas, the seven quoted keys with their colons (5, 10, 13, 10, 11, 12
  and 12 code units) and the seven values. An importance label is one code unit between
  quotes.
\<close>

definition calculateRecordSize :: "entry \<Rightarrow> nat" where
  "calculateRecordSize r =
     2 + 6 + (5 + 10 + 13 + 10 + 11 + 12 + 12)
     + json_string_length (r_id r)
     + json_string_length (r_content r)
     + 3
     + json_string_length (r_context r)
     + json_length (JObj (r_metadata r))
     + (2 + iso_length (r_createdAt r))
     + (2 + iso_length (r_updatedAt r))"

section \<open>JavaScript built-ins used by the handlers\<close>






text \<open>
  \<^verbatim>\<open>xs.sort(cmp)\<close> is a stable sort: an element goes before the first element it does not
  compare greater than, and the elements are inserted from the right, so that equal
  elements keep their order.
\<close>

fun insert_by :: "('a \<Rightarrow> 'a \<Rightarrow> int) \<Rightarrow> 'a \<Rightarrow> 'a list \<Rightarrow> 'a list" where
  "insert_by cmp x [] = [x]"
| "insert_by cmp x (y # ys) = (if cmp x y \<le> 0 then x # y # ys else y # insert_by cmp x ys)"

definition js_sort :: "('a \<Rightarrow> 'a \<Rightarrow> int) \<Rightarrow> 'a list \<Rightarrow> 'a list" where
  "js_sort cmp xs = foldr (insert_by cmp) xs []"

text \<open>\<^verbatim>\<open>xs.findIndex(p)\<close>, with \<open>None\<close> for \<^verbatim>\<open>-1\<close>.\<close>

fun findIndex :: "('a \<Rightarrow> bool) \<Rightarrow> 'a list \<Rightarrow> nat option" where
  "findIndex p [] = None"
| "findIndex p (x # xs) =
     (if p x then Some 0 else (case findIndex p xs of None \<Rightarrow> None | Some i \<Rightarrow> Some (Suc i)))"

text \<open>
  A key is an array index when it is the decimal text, without sign or leading zero, of a
  whole number up to \<open>2^32 - 2\<close>.
\<close>

definition digit_value :: "char \<Rightarrow> nat" where
  "digit_value c = of_char c - 48"

definition array_index :: "string \<Rightarrow> nat option" where
  "array_index k =
     (if k \<noteq> [] \<and> list_all (\<lambda>c. 48 \<le> (of_char c :: nat) \<and> (of_char c :: nat) \<le> 57) k \<and>
         (k = ''0'' \<or> hd k \<noteq> CHR ''0'') \<and>
         fold (\<lambda>c n. 10 * n + digit_value c) k 0 \<le> 4294967294
      then Some (fold (\<lambda>c n. 10 * n + digit_value c) k 0) else None)"

text \<open>
  A new property whose key is the array index \<open>n\<close> takes its place among the array indices
  of the object, before the first property whose key is a greater index or no index.
\<close>

fun insert_index :: "nat \<Rightarrow> string \<Rightarrow> jvalue \<Rightarrow> (string \<times> jvalue) list \<Rightarrow> (string \<times> jvalue) list" where
  "insert_index n k v [] = [(k, v)]"
| "insert_index n k v (p # ps) =
     (case array_index (fst p) of
        Some m \<Rightarrow> if m < n then p # insert_index n k v ps else (k, v) # p # ps
      | None \<Rightarrow> (k, v) # p # ps)"

text \<open>
  Defining the property \<open>k\<close> of an object: an existing property keeps its place and takes
  the new value; a new property goes among the array indices when its key is one, and to
  the end otherwise.
\<close>

definition set_property :: "string \<Rightarrow> jvalue \<Rightarrow> (string \<times> jvalue) list \<Rightarrow> (string \<times> jvalue) list" where
  "set_property k v obj =
     (if k \<in> set (map fst obj) then AList.update k v obj
      else case array_index k of
             Some n \<Rightarrow> insert_index n k v obj
           | None \<Rightarrow> obj @ [(k, v)])"

text \<open>
  \<^verbatim>\<open>{ ...old, ...supplied }\<close>: a fresh object receives the properties of \<open>old\<close>, which gives
  \<open>old\<close> again, and then the properties of \<open>supplied\<close> in their order.
\<close>

definition spread :: "(string \<times> jvalue) list \<Rightarrow> (string \<times> jvalue) list \<Rightarrow> (string \<times> jvalue) list" where
  "spread old supplied = fold (\<lambda>kv. set_property (fst kv) (snd kv)) supplied old"

section \<open>stats.js\<close>

text \<open>
  The action strings of \<^verbatim>\<open>updateStats\<close>; \<open>other_action\<close> is any string that none of the
  four comparisons matches.
\<close>

datatype stats_action = add_topic | add_record | remove_topic | remove_record | other_action

text \<open>
  \<^verbatim>\<open>updateStats(action, topic = null, record = null)\<close>; \<open>now\<close> is the result of its call of
  \<^verbatim>\<open>getCurrentTimestamp()\<close>. The parameter \<open>topic\<close> is never read.
\<close>

definition updateStats :: "nat \<Rightarrow> stats_action \<Rightarrow> string option \<Rightarrow> entry option \<Rightarrow> stats \<Rightarrow> stats" where
  "updateStats now action topic record s =
     (let s1 = s\<lparr>lastAccessTime := Some now\<rparr>;
          s2 = s1\<lparr>accessCount := accessCount s1 + 1\<rparr>
      in case action of
           add_topic \<Rightarrow> s2\<lparr>totalTopics := totalTopics s2 + 1\<rparr>
         | add_record \<Rightarrow>
             (let s3 = s2\<lparr>totalRecords := totalRecords s2 + 1\<rparr>
              in case record of
                   Some r \<Rightarrow> s3\<lparr>totalMemorySize := totalMemorySize s3 + int (calculateRecordSize r)\<rparr>
                 | None \<Rightarrow> s3)
         | remove_topic \<Rightarrow> s2\<lparr>totalTopics := totalTopics s2 - 1\<rparr>
         | remove_record \<Rightarrow>
             (let s3 = s2\<lparr>totalRecords := totalRecords s2 - 1\<rparr>
              in case record of
                   Some r \<Rightarrow> s3\<lparr>totalMemorySize := totalMemorySize s3 - int (calculateRecordSize r)\<rparr>
                 | None \<Rightarrow> s3)
         | other_action \<Rightarrow> s2)"

section \<open>tools/memoryManage.js\<close>

text \<open>
  Each case of the \<^verbatim>\<open>switch\<close> of the \<^verbatim>\<open>memory_manage\<close> handler is one function from the
  state before the call to the answer and the state after it. A topic object found by
  \<^verbatim>\<open>memoryStore.get\<close> is mutated in place, which leaves its key where it is in the
  \<^verbatim>\<open>Map\<close>: the model writes the changed topic back with \<^const>\<open>AList.update\<close>.
\<close>

type_synonym manage_result = "(error + manage_ok) \<times> state"

definition create_topic :: "env \<Rightarrow> string \<Rightarrow> string \<Rightarrow> string list \<Rightarrow> state \<Rightarrow> manage_result" where
  "create_topic e topic description tags st =
     (case map_of (memoryStore st) topic of
        Some t \<Rightarrow>
          (Inl (AlreadyExists (t_description t) (t_tags t) (length (t_records t))), st)
      | None \<Rightarrow>
          (let newTopic =
                 \<lparr>t_id = gen_id e, t_name = topic, t_description = description, t_tags = tags,
                  t_records = [], t_createdAt = clock e 0, t_updatedAt = clock e 1\<rparr>
           in (Inr (TopicCreated newTopic),
               st\<lparr>memoryStore := AList.update topic newTopic (memoryStore st),
                  memoryStats := updateStats (clock e 2) add_topic None None (memoryStats st)\<rparr>)))"

definition create_record ::
  "env \<Rightarrow> string \<Rightarrow> string \<Rightarrow> importance \<Rightarrow> string \<Rightarrow> (string \<times> jvalue) list \<Rightarrow> state \<Rightarrow> manage_result" where
  "create_record e topic content importance ctx metadata st =
     (if content = [] then (Inl (ValidationError EmptyContent), st)
      else case map_of (memoryStore st) topic of
        None \<Rightarrow> (Inl (NotFound TopicAbsent), st)
      | Some t \<Rightarrow>
          (let newRecord =
                 \<lparr>r_id = gen_id e, r_content = content, r_importance = importance,
                  r_context = ctx, r_metadata = metadata,
                  r_createdAt = clock e 0, r_updatedAt = clock e 1\<rparr>;
               t1 = t\<lparr>t_records := t_records t @ [newRecord]\<rparr>;
               t2 = t1\<lparr>t_updatedAt := clock e 2\<rparr>
           in (Inr (RecordAdded newRecord (length (t_records t2))),
               st\<lparr>memoryStore := AList.update topic t2 (memoryStore st),
                  memoryStats :=
                    updateStats (clock e 3) add_record (Some topic) (Some newRecord)
                      (memoryStats st)\<rparr>)))"

definition update_topic :: "env \<Rightarrow> string \<Rightarrow> string \<Rightarrow> string list \<Rightarrow> state \<Rightarrow> manage_result" where
  "update_topic e topic description tags st =
     (case map_of (memoryStore st) topic of
        None \<Rightarrow> (Inl (NotFound TopicAbsent), st)
      | Some t \<Rightarrow>
          (let t1 = (if description \<noteq> [] then t\<lparr>t_description := description\<rparr> else t);
               t2 = (if tags \<noteq> [] then t1\<lparr>t_tags := tags\<rparr> else t1);
               t3 = t2\<lparr>t_updatedAt := clock e 0\<rparr>
           in (Inr (TopicUpdated t3),
               st\<lparr>memoryStore := AList.update topic t3 (memoryStore st)\<rparr>)))"

text \<open>
  The assignments of \<^verbatim>\<open>update_record\<close> to the record it found: an argument that is the
  empty string, the default importance or an empty object writes nothing; \<open>now\<close> is the
  time of the record's \<^verbatim>\<open>updatedAt\<close>.
\<close>

definition assign_record_fields ::
  "nat \<Rightarrow> string \<Rightarrow> importance \<Rightarrow> string \<Rightarrow> (string \<times> jvalue) list \<Rightarrow> entry \<Rightarrow> entry" where
  "assign_record_fields now content importance ctx metadata r =
     (let r1 = (if content \<noteq> [] then r\<lparr>r_content := content\<rparr> else r);
          r2 = (if importance \<noteq> Medium then r1\<lparr>r_importance := importance\<rparr> else r1);
          r3 = (if ctx \<noteq> [] then r2\<lparr>r_context := ctx\<rparr> else r2);
          r4 = (if metadata \<noteq> []
                then r3\<lparr>r_metadata := spread (r_metadata r3) metadata\<rparr> else r3)
      in r4\<lparr>r_updatedAt := now\<rparr>)"

text \<open>
  \<^verbatim>\<open>records.find\<close> gives the first record with the id; it is changed where it stands in
  the array.
\<close>

definition update_record ::
  "env \<Rightarrow> string \<Rightarrow> string \<Rightarrow> importance \<Rightarrow> string \<Rightarrow> (string \<times> jvalue) list \<Rightarrow> string \<Rightarrow> state
     \<Rightarrow> manage_result" where
  "update_record e topic content importance ctx metadata recordId st =
     (if recordId = [] then (Inl (ValidationError EmptyRecordId), st)
      else case map_of (memoryStore st) topic of
        None \<Rightarrow> (Inl (NotFound TopicAbsent), st)
      | Some t \<Rightarrow>
          (case findIndex (\<lambda>r. r_id r = recordId) (t_records t) of
             None \<Rightarrow> (Inl (NotFound RecordAbsent), st)
           | Some i \<Rightarrow>
               (let r = assign_record_fields (clock e 0) content importance ctx metadata
                          (t_records t ! i);
                    t1 = t\<lparr>t_records := (t_records t)[i := r]\<rparr>;
                    t2 = t1\<lparr>t_updatedAt := clock e 1\<rparr>
                in (Inr (RecordUpdated r),
                    st\<lparr>memoryStore := AList.update topic t2 (memoryStore st)\<rparr>))))"

definition delete_topic :: "env \<Rightarrow> string \<Rightarrow> bool \<Rightarrow> state \<Rightarrow> manage_result" where
  "delete_topic e topic confirm st =
     (case map_of (memoryStore st) topic of
        None \<Rightarrow> (Inl (NotFound TopicAbsent), st)
      | Some t \<Rightarrow>
          (if \<not> confirm
           then (Inl (ConfirmationRequired (t_description t) (t_tags t) (length (t_records t))
                        (t_createdAt t)), st)
           else
             (let recordCount = length (t_records t);
                  store' = AList.delete topic (memoryStore st)
              in (Inr (TopicDeleted topic recordCount (t_description t) (length store')),
                  st\<lparr>memoryStore := store',
                     memoryStats :=
                       updateStats (clock e 0) remove_topic (Some topic) None (memoryStats st)\<rparr>))))"

text \<open>\<^verbatim>\<open>records.splice(recordIndex, 1)[0]\<close> takes the record at the index out of the array.\<close>

definition delete_record :: "env \<Rightarrow> string \<Rightarrow> string \<Rightarrow> state \<Rightarrow> manage_result" where
  "delete_record e topic recordId st =
     (if recordId = [] then (Inl (ValidationError EmptyRecordId), st)
      else case map_of (memoryStore st) topic of
        None \<Rightarrow> (Inl (NotFound TopicAbsent), st)
      | Some t \<Rightarrow>
          (case findIndex (\<lambda>r. r_id r = recordId) (t_records t) of
             None \<Rightarrow> (Inl (NotFound RecordAbsent), st)
           | Some i \<Rightarrow>
               (let removedRecord = t_records t ! i;
                    t1 = t\<lparr>t_records := take i (t_records t) @ drop (Suc i) (t_records t)\<rparr>;
                    t2 = t1\<lparr>t_updatedAt := clock e 0\<rparr>
                in (Inr (RecordDeleted removedRecord (length (t_records t2))),
                    st\<lparr>memoryStore := AList.update topic t2 (memoryStore st),
                       memoryStats :=
                         updateStats (clock e 1) remove_record (Some topic) (Some removedRecord)
                           (memoryStats st)\<rparr>))))"

text \<open>
  The arguments of the handler after schema validation, and the \<^verbatim>\<open>switch\<close> on the action.
  The schema admits the six actions only, so the \<^verbatim>\<open>default\<close> branch has no input.
\<close>

datatype manage_action =
  CreateTopic | CreateRecord | UpdateTopic | UpdateRecord | DeleteTopic | DeleteRecord

record manage_args =
  a_action :: manage_action
  a_topic :: string
  a_description :: string
  a_tags :: "string list"
  a_content :: string
  a_importance :: importance
  a_context :: string
  a_metadata :: "(string \<times> jvalue) list"
  a_recordId :: string
  a_confirm :: bool

definition memory_manage :: "env \<Rightarrow> manage_args \<Rightarrow> state \<Rightarrow> manage_result" where
  "memory_manage e a st =
     (case a_action a of
        CreateTopic \<Rightarrow> create_topic e (a_topic a) (a_description a) (a_tags a) st
      | CreateRecord \<Rightarrow>
          create_record e (a_topic a) (a_content a) (a_importance a) (a_context a) (a_metadata a) st
      | UpdateTopic \<Rightarrow> update_topic e (a_topic a) (a_description a) (a_tags a) st
      | UpdateRecord \<Rightarrow>
          update_record e (a_topic a) (a_content a) (a_importance a) (a_context a) (a_metadata a)
            (a_recordId a) st
      | DeleteTopic \<Rightarrow> delete_topic e (a_topic a) (a_confirm a) st
      | DeleteRecord \<Rightarrow> delete_record e (a_topic a) (a_recordId a) st)"

section \<open>tools/memoryQuery.js\<close>

text \<open>
  The importance filter of the query schema has a fourth label for "all", the default:
  \<open>None\<close> here; \<open>Some i\<close> is the label of \<open>i\<close>. The sort key has the two labels for time
  and importance. \<open>limit\<close> is the whole number of results that \<^verbatim>\<open>slice(0, limit)\<close> keeps.
\<close>

datatype sort_by = ByTime | ByImportance

text \<open>The table \<^verbatim>\<open>importanceOrder\<close> of \<^verbatim>\<open>view_topic\<close>.\<close>

fun importanceOrder :: "importance \<Rightarrow> int" where
  "importanceOrder High = 3"
| "importanceOrder Medium = 2"
| "importanceOrder Low = 1"

text \<open>
  \<^verbatim>\<open>view_topic\<close> answers with the topic, the records shown and, when there are more records
  than \<open>limit\<close>, the number not shown.
\<close>

record topic_view =
  v_topic :: topic
  v_displayRecords :: "entry list"
  v_totalRecords :: nat
  v_notShown :: "nat option"

definition view_topic :: "string \<Rightarrow> sort_by \<Rightarrow> nat \<Rightarrow> state \<Rightarrow> error + topic_view" where
  "view_topic topic sortBy limit st =
     (if topic = [] then Inl (ValidationError EmptyTopicName)
      else case map_of (memoryStore st) topic of
        None \<Rightarrow> Inl (NotFound TopicAbsent)
      | Some topicData \<Rightarrow>
          (let records =
                 (case sortBy of
                    ByTime \<Rightarrow>
                      js_sort (\<lambda>a b. int (r_createdAt b) - int (r_createdAt a)) (t_records topicData)
                  | ByImportance \<Rightarrow>
                      js_sort (\<lambda>a b. importanceOrder (r_importance b) - importanceOrder (r_importance a))
                        (t_records topicData));
               displayRecords = take limit records
           in Inr \<lparr>v_topic = topicData, v_displayRecords = displayRecords,
                   v_totalRecords = length (t_records topicData),
                   v_notShown =
                     (if length (t_records topicData) > limit
                      then Some (length (t_records topicData) - limit) else None)\<rparr>))"








section \<open>The wording of the specification\<close>









text \<open>
  The failures that the claim about the management tool lists: empty content, empty record
  id, topic absent, record id absent, duplicate topic name, deletion without confirmation.
\<close>

definition listed_error :: "error \<Rightarrow> bool" where
  "listed_error err =
     (case err of
        ValidationError EmptyContent \<Rightarrow> True
      | ValidationError EmptyRecordId \<Rightarrow> True
      | NotFound TopicAbsent \<Rightarrow> True
      | NotFound RecordAbsent \<Rightarrow> True
      | AlreadyExists d g n \<Rightarrow> True
      | ConfirmationRequired d g n c \<Rightarrow> True
      | _ \<Rightarrow> False)"

section \<open>Concrete inputs\<close>

text \<open>States and arguments at which the theorems below are instantiated.\<close>

definition env1 :: env where
  "env1 = \<lparr>gen_id = ''id1'', clock = (\<lambda>k. 100 + k)\<rparr>"

definition st_notes :: state where
  "st_notes =
     \<lparr>memoryStore =
        [(''Notes'', \<lparr>t_id = ''t1'', t_name = ''Notes'', t_description = ''d'', t_tags = [''a''],
                     t_records = [], t_createdAt = 5, t_updatedAt = 6\<rparr>)],
      memoryStats = \<lparr>totalTopics = 1, totalRecords = 0, totalMemorySize = 0,
                     lastAccessTime = Some 7, accessCount = 1\<rparr>\<rparr>"

definition rec_hello :: entry where
  "rec_hello =
     \<lparr>r_id = ''r1'', r_content = ''hello world'', r_importance = High, r_context = [],
      r_metadata = [], r_createdAt = 10, r_updatedAt = 10\<rparr>"

definition rec_second :: entry where
  "rec_second =
     \<lparr>r_id = ''r2'', r_content = ''second'', r_importance = Low, r_context = ''ctx'',
      r_metadata = [(''n'', JNum ''42''), (''flag'', JBool True)],
      r_createdAt = 11, r_updatedAt = 11\<rparr>"

definition topic_two :: topic where
  "topic_two =
     \<lparr>t_id = ''t1'', t_name = ''Notes'', t_description = ''d'', t_tags = [''a''],
      t_records = [rec_hello, rec_second], t_createdAt = 5, t_updatedAt = 11\<rparr>"

definition st_two :: state where
  "st_two =
     \<lparr>memoryStore = [(''Notes'', topic_two)],
      memoryStats = \<lparr>totalTopics = 1, totalRecords = 2, totalMemorySize = 330,
                     lastAccessTime = Some 11, accessCount = 3\<rparr>\<rparr>"

definition env2 :: env where
  "env2 = \<lparr>gen_id = ''id2'', clock = (\<lambda>k. 200 + k)\<rparr>"

text \<open>The state of a fresh server after one topic and one record have been created.\<close>

definition st_one :: state where
  "st_one =
     snd (create_record env2 ''Notes'' ''hello'' Medium [] []
            (snd (create_topic env1 ''Notes'' ''d'' [] initial_state)))"

definition env3 :: env where
  "env3 = \<lparr>gen_id = ''id3'', clock = (\<lambda>k. 300 + k)\<rparr>"

definition env4 :: env where
  "env4 = \<lparr>gen_id = ''id4'', clock = (\<lambda>k. 400 + k)\<rparr>"

definition st_grown :: state where
  "st_grown = snd (update_record env3 ''Notes'' ''hello, hello, hello'' Medium [] [] ''id2'' st_one)"

definition args_delete_record :: manage_args where
  "args_delete_record =
     \<lparr>a_action = DeleteRecord, a_topic = ''Notes'', a_description = [], a_tags = [],
      a_content = [], a_importance = Medium, a_context = [], a_metadata = [],
      a_recordId = ''id2'', a_confirm = False\<rparr>"

definition args_preview :: manage_args where
  "args_preview =
     \<lparr>a_action = DeleteTopic, a_topic = ''Notes'', a_description = [], a_tags = [],
      a_content = [], a_importance = Medium, a_context = [], a_metadata = [],
      a_recordId = [], a_confirm = False\<rparr>"

definition args_rename :: manage_args where
  "args_rename =
     \<lparr>a_action = UpdateTopic, a_topic = ''Notes'', a_description = ''new'', a_tags = [],
      a_content = [], a_importance = Medium, a_context = [], a_metadata = [],
      a_recordId = [], a_confirm = False\<rparr>"

definition topic_mixed :: topic where
  "topic_mixed =
     \<lparr>t_id = ''t9'', t_name = ''Mixed'', t_description = [], t_tags = [],
      t_records =
        [\<lparr>r_id = ''a'', r_content = ''one'', r_importance = Low, r_context = [],
          r_metadata = [], r_createdAt = 1, r_updatedAt = 1\<rparr>,
         \<lparr>r_id = ''b'', r_content = ''two'', r_importance = High, r_context = [],
          r_metadata = [], r_createdAt = 2, r_updatedAt = 2\<rparr>,
         \<lparr>r_id = ''c'', r_content = ''three'', r_importance = Medium, r_context = [],
          r_metadata = [], r_createdAt = 3, r_updatedAt = 3\<rparr>,
         \<lparr>r_id = ''d'', r_content = ''four'', r_importance = High, r_context = [],
          r_metadata = [], r_createdAt = 4, r_updatedAt = 4\<rparr>],
      t_createdAt = 1, t_updatedAt = 4\<rparr>"

definition st_mixed :: state where
  "st_mixed =
     \<lparr>memoryStore = [(''Mixed'', topic_mixed)],
      memoryStats = \<lparr>totalTopics = 1, totalRecords = 4, totalMemorySize = 595,
                     lastAccessTime = Some 4, accessCount = 5\<rparr>\<rparr>"




section \<open>Auxiliary facts\<close>

subsection \<open>The store as an association list\<close>

lemma update_absent: "map_of al k = None \<Longrightarrow> AList.update k v al = al @ [(k, v)]"
  by (induction al) (auto split: if_splits)

lemma keys_update_present:
  "map_of al k = Some v \<Longrightarrow> map fst (AList.update k v' al) = map fst al"
  by (induction al) (auto split: if_splits)

lemma count_key_distinct:
  "distinct (map fst al) \<Longrightarrow> map_of al k = Some v \<Longrightarrow> length (filter (\<lambda>kv. fst kv = k) al) = 1"
  by (induction al) (auto simp: filter_empty_conv rev_image_eqI split: if_splits)

lemma count_key_absent:
  "map_of al k = None \<Longrightarrow> filter (\<lambda>kv. fst kv = k) al = []"
  by (induction al) (auto split: if_splits)

subsection \<open>The statistics\<close>

lemma updateStats_add_topic:
  "updateStats now add_topic tp rc s =
     s\<lparr>lastAccessTime := Some now, accessCount := accessCount s + 1,
       totalTopics := totalTopics s + 1\<rparr>"
  by (simp add: updateStats_def)

subsection \<open>Sorting with a comparator that subtracts keys\<close>

lemma insert_by_insort_key:
  "insert_by (\<lambda>a b. k b - k a) x xs = insort_key (\<lambda>y. - k y) x xs"
  by (induction xs) simp_all

lemma js_sort_sort_key: "js_sort (\<lambda>a b. k b - k a) xs = sort_key (\<lambda>y. - k y) xs"
  by (induction xs) (simp_all add: js_sort_def sort_key_def insert_by_insort_key)

lemma js_sort_descending:
  "sorted_wrt (\<lambda>a b. k b \<le> k a) (js_sort (\<lambda>a b. k b - k a) xs)"
proof -
  have "sorted (map (\<lambda>y. - k y) (sort_key (\<lambda>y. - k y) xs))"
    by (rule sorted_sort_key)
  then show ?thesis
    by (simp add: js_sort_sort_key sorted_map)
qed

lemma js_sort_stable:
  "filter (\<lambda>x. k x = c) (js_sort (\<lambda>a b. k b - k a) xs) = filter (\<lambda>x. k x = c) xs"
proof -
  have "filter (\<lambda>x. - k x = - c) (sort_key (\<lambda>y. - k y) xs) = filter (\<lambda>x. - k x = - c) xs"
    by (rule sort_key_stable)
  then show ?thesis
    by (simp add: js_sort_sort_key)
qed

lemma js_sort_mset: "mset (js_sort (\<lambda>a b. k b - k a) xs) = mset xs"
  by (simp add: js_sort_sort_key)

lemma three_classes_mset:
  "\<forall>x\<in>set xs. k x = (3::int) \<or> k x = 2 \<or> k x = 1 \<Longrightarrow>
   mset (filter (\<lambda>x. k x = 3) xs @ filter (\<lambda>x. k x = 2) xs @ filter (\<lambda>x. k x = 1) xs) = mset xs"
  by (induction xs) auto

lemma sorted_one_class: "sorted (map (\<lambda>y. - k y) (filter (\<lambda>x. k x = c) xs))"
  by (induction xs) auto

lemma js_sort_three_classes:
  assumes "\<forall>x\<in>set xs. k x = (3::int) \<or> k x = 2 \<or> k x = 1"
  shows "js_sort (\<lambda>a b. k b - k a) xs =
         filter (\<lambda>x. k x = 3) xs @ filter (\<lambda>x. k x = 2) xs @ filter (\<lambda>x. k x = 1) xs"
    (is "_ = ?ys")
proof -
  have "sort_key (\<lambda>y. - k y) xs = ?ys"
  proof (rule properties_for_sort_key)
    show "mset ?ys = mset xs"
      using assms by (rule three_classes_mset)
    show "sorted (map (\<lambda>y. - k y) ?ys)"
      by (auto simp: sorted_append sorted_one_class)
    show "filter (\<lambda>x. - k y = - k x) ?ys = filter (\<lambda>x. - k y = - k x) xs" if "y \<in> set ?ys" for y
    proof -
      from that assms have "k y = 3 \<or> k y = 2 \<or> k y = 1" by auto
      then show ?thesis
        by (elim disjE) (simp_all add: filter_empty_conv)
    qed
  qed
  then show ?thesis by (simp add: js_sort_sort_key)
qed

subsection \<open>Substrings\<close>


subsection \<open>The cases of the management handler\<close>

lemma create_topic_present:
  "map_of (memoryStore st) topic = Some t \<Longrightarrow>
   create_topic e topic description tags st =
     (Inl (AlreadyExists (t_description t) (t_tags t) (length (t_records t))), st)"
  by (simp add: create_topic_def)

lemma create_topic_fresh:
  "map_of (memoryStore st) topic = None \<Longrightarrow>
   create_topic e topic description tags st =
     (Inr (TopicCreated
            \<lparr>t_id = gen_id e, t_name = topic, t_description = description, t_tags = tags,
             t_records = [], t_createdAt = clock e 0, t_updatedAt = clock e 1\<rparr>),
      st\<lparr>memoryStore := memoryStore st @
            [(topic, \<lparr>t_id = gen_id e, t_name = topic, t_description = description,
                      t_tags = tags, t_records = [], t_createdAt = clock e 0,
                      t_updatedAt = clock e 1\<rparr>)],
         memoryStats := updateStats (clock e 2) add_topic None None (memoryStats st)\<rparr>)"
  by (simp add: create_topic_def Let_def update_absent)

subsection \<open>Finding a record, merging metadata\<close>

lemma findIndex_Some:
  "findIndex p xs = Some i \<Longrightarrow> i < length xs \<and> p (xs ! i) \<and> (\<forall>j<i. \<not> p (xs ! j))"
proof (induction xs arbitrary: i)
  case Nil
  then show ?case by simp
next
  case (Cons x xs)
  show ?case
  proof (cases "p x")
    case True
    with Cons.prems show ?thesis by simp
  next
    case False
    with Cons.prems obtain i' where i': "findIndex p xs = Some i'" "i = Suc i'"
      by (auto split: option.splits)
    from Cons.IH [OF i'(1)] False i'(2) show ?thesis
      by (auto simp: less_Suc_eq_0_disj)
  qed
qed

lemma findIndex_None: "findIndex p xs = None \<longleftrightarrow> (\<forall>x\<in>set xs. \<not> p x)"
  by (induction xs) (auto split: option.splits)

lemma findIndex_exists: "x \<in> set xs \<Longrightarrow> p x \<Longrightarrow> \<exists>i. findIndex p xs = Some i"
  using findIndex_None [of p xs] by (cases "findIndex p xs") auto

lemma findIndex_distinct:
  assumes "distinct (map f xs)" "x \<in> set xs" "findIndex (\<lambda>y. f y = f x) xs = Some i"
  shows "xs ! i = x"
proof -
  from findIndex_Some [OF assms(3)] have i: "i < length xs" "f (xs ! i) = f x" by auto
  from assms(2) obtain j where j: "j < length xs" "xs ! j = x"
    by (auto simp: in_set_conv_nth)
  from assms(1) i j have "i = j"
    by (metis distinct_conv_nth length_map nth_map)
  with j show ?thesis by simp
qed

lemma map_of_rev_distinct: "distinct (map fst xs) \<Longrightarrow> map_of (rev xs) = map_of xs"
proof (induction xs)
  case Nil
  then show ?case by simp
next
  case (Cons x xs)
  then have "fst x \<notin> dom (map_of xs)"
    by (simp add: dom_map_of_conv_image_fst)
  with Cons show ?case
    by (cases x) (auto simp: map_add_def fun_eq_iff split: option.splits)
qed

lemma map_of_insert_index:
  "k \<notin> set (map fst obj) \<Longrightarrow> map_of (insert_index n k v obj) = (map_of obj)(k \<mapsto> v)"
proof (induction obj)
  case Nil
  then show ?case by simp
next
  case (Cons p obj)
  then have "k \<noteq> fst p" and "k \<notin> set (map fst obj)"
    by auto
  with Cons.IH show ?case
    by (cases p) (auto simp: fun_upd_twist split: option.splits)
qed

lemma map_of_append_new:
  "k \<notin> set (map fst obj) \<Longrightarrow> map_of (obj @ [(k, v)]) = (map_of obj)(k \<mapsto> v)"
  by (induction obj) (auto simp: fun_upd_twist)

lemma map_of_set_property: "map_of (set_property k v obj) = (map_of obj)(k \<mapsto> v)"
proof (cases "k \<in> set (map fst obj)")
  case True
  then show ?thesis
    by (simp add: set_property_def update_conv')
next
  case False
  show ?thesis
  proof (cases "array_index k")
    case None
    with False have "set_property k v obj = obj @ [(k, v)]"
      by (simp add: set_property_def)
    with map_of_append_new [OF False, of v] show ?thesis
      by simp
  next
    case (Some n)
    with False have "set_property k v obj = insert_index n k v obj"
      by (simp add: set_property_def)
    with map_of_insert_index [OF False, of n v] show ?thesis
      by simp
  qed
qed

lemma map_of_spread_rev:
  "map_of (spread old supplied) = map_of old ++ map_of (rev supplied)"
  unfolding spread_def
  by (induction supplied arbitrary: old) (simp_all add: map_of_set_property map_add_upd_left)

lemma map_of_spread:
  assumes "distinct (map fst supplied)"
  shows "map_of (spread old supplied) k =
         (case map_of supplied k of Some v \<Rightarrow> Some v | None \<Rightarrow> map_of old k)"
  by (simp add: map_of_spread_rev map_of_rev_distinct [OF assms] map_add_def)

lemma subseq_keys_insert_index:
  "subseq (map fst obj) (map fst (insert_index n k v obj))"
  by (induction obj) (auto split: option.splits)

lemma subseq_keys_set_property:
  "subseq (map fst obj) (map fst (set_property k v obj))"
proof (cases "k \<in> set (map fst obj)")
  case True
  then have "map fst (AList.update k v obj) = map fst obj"
    by (simp add: update_keys)
  with True show ?thesis
    by (simp add: set_property_def)
next
  case False
  then show ?thesis
    by (auto simp: set_property_def subseq_keys_insert_index split: option.splits)
qed

lemma subseq_keys_spread: "subseq (map fst old) (map fst (spread old supplied))"
  unfolding spread_def
proof (induction supplied arbitrary: old)
  case Nil
  then show ?case by simp
next
  case (Cons kv supplied)
  have "subseq (map fst old) (map fst (set_property (fst kv) (snd kv) old))"
    by (rule subseq_keys_set_property)
  also have "subseq \<dots> (map fst (fold (\<lambda>kv. set_property (fst kv) (snd kv)) supplied
                                   (set_property (fst kv) (snd kv) old)))"
    by (rule Cons.IH)
  finally show ?case by simp
qed

subsection \<open>More cases of the management handler\<close>

lemma updateStats_add_record:
  "updateStats now add_record tp (Some r) s =
     s\<lparr>lastAccessTime := Some now, accessCount := accessCount s + 1,
       totalRecords := totalRecords s + 1,
       totalMemorySize := totalMemorySize s + int (calculateRecordSize r)\<rparr>"
  by (simp add: updateStats_def)

lemma create_record_ok:
  "content \<noteq> [] \<Longrightarrow> map_of (memoryStore st) topic = Some t \<Longrightarrow>
   create_record e topic content importance ctx metadata st =
     (let nr = \<lparr>r_id = gen_id e, r_content = content, r_importance = importance,
                r_context = ctx, r_metadata = metadata,
                r_createdAt = clock e 0, r_updatedAt = clock e 1\<rparr>
      in (Inr (RecordAdded nr (Suc (length (t_records t)))),
          st\<lparr>memoryStore :=
               AList.update topic (t\<lparr>t_records := t_records t @ [nr], t_updatedAt := clock e 2\<rparr>)
                 (memoryStore st),
             memoryStats :=
               updateStats (clock e 3) add_record (Some topic) (Some nr) (memoryStats st)\<rparr>))"
  by (simp add: create_record_def Let_def)

lemma update_record_ok:
  "recordId \<noteq> [] \<Longrightarrow> map_of (memoryStore st) topic = Some t \<Longrightarrow>
   findIndex (\<lambda>r. r_id r = recordId) (t_records t) = Some i \<Longrightarrow>
   update_record e topic content importance ctx metadata recordId st =
     (Inr (RecordUpdated
            (assign_record_fields (clock e 0) content importance ctx metadata (t_records t ! i))),
      st\<lparr>memoryStore :=
           AList.update topic
             (t\<lparr>t_records := (t_records t)
                   [i := assign_record_fields (clock e 0) content importance ctx metadata
                           (t_records t ! i)],
                t_updatedAt := clock e 1\<rparr>)
             (memoryStore st)\<rparr>)"
  by (simp add: update_record_def Let_def)

subsection \<open>Failures leave the state, successes touch the store\<close>

lemma update_changes: "map_of al k \<noteq> Some v \<Longrightarrow> AList.update k v al \<noteq> al"
proof
  assume differs: "map_of al k \<noteq> Some v" and same: "AList.update k v al = al"
  have "map_of (AList.update k v al) k = Some v"
    by (simp add: update_conv')
  with same differs show False by simp
qed

lemma delete_changes: "map_of al k = Some v \<Longrightarrow> AList.delete k al \<noteq> al"
proof
  assume present: "map_of al k = Some v" and same: "AList.delete k al = al"
  have "map_of (AList.delete k al) k = None"
    by (simp add: delete_conv')
  with same present show False by simp
qed

lemma topic_records_changed:
  assumes "length rs \<noteq> length (t_records t)"
  shows "Some t \<noteq> Some (t\<lparr>t_records := rs, t_updatedAt := u\<rparr>)"
proof
  assume "Some t = Some (t\<lparr>t_records := rs, t_updatedAt := u\<rparr>)"
  then have "t_records t = t_records (t\<lparr>t_records := rs, t_updatedAt := u\<rparr>)"
    by simp
  with assms show False by simp
qed

lemma create_topic_error:
  "fst (create_topic e topic description tags st) = Inl err \<Longrightarrow>
   snd (create_topic e topic description tags st) = st \<and> listed_error err"
  by (auto simp: create_topic_def Let_def listed_error_def split: option.splits)

lemma create_record_error:
  "fst (create_record e topic content importance ctx metadata st) = Inl err \<Longrightarrow>
   snd (create_record e topic content importance ctx metadata st) = st \<and> listed_error err"
  by (auto simp: create_record_def Let_def listed_error_def split: option.splits if_splits)

lemma update_topic_error:
  "fst (update_topic e topic description tags st) = Inl err \<Longrightarrow>
   snd (update_topic e topic description tags st) = st \<and> listed_error err"
  by (auto simp: update_topic_def Let_def listed_error_def split: option.splits)

lemma update_record_error:
  "fst (update_record e topic content importance ctx metadata recordId st) = Inl err \<Longrightarrow>
   snd (update_record e topic content importance ctx metadata recordId st) = st \<and> listed_error err"
  by (auto simp: update_record_def Let_def listed_error_def split: option.splits if_splits)

lemma delete_topic_error:
  "fst (delete_topic e topic confirm st) = Inl err \<Longrightarrow>
   snd (delete_topic e topic confirm st) = st \<and> listed_error err"
  by (auto simp: delete_topic_def Let_def listed_error_def split: option.splits if_splits)

lemma delete_record_error:
  "fst (delete_record e topic recordId st) = Inl err \<Longrightarrow>
   snd (delete_record e topic recordId st) = st \<and> listed_error err"
  by (auto simp: delete_record_def Let_def listed_error_def split: option.splits if_splits)

lemma create_topic_touch:
  "memoryStats (snd (create_topic e topic description tags st)) \<noteq> memoryStats st \<Longrightarrow>
   (\<exists>ok. fst (create_topic e topic description tags st) = Inr ok) \<and>
   memoryStore (snd (create_topic e topic description tags st)) \<noteq> memoryStore st"
  by (auto simp: create_topic_def Let_def update_changes split: option.splits)

lemma create_record_touch:
  "memoryStats (snd (create_record e topic content importance ctx metadata st)) \<noteq> memoryStats st \<Longrightarrow>
   (\<exists>ok. fst (create_record e topic content importance ctx metadata st) = Inr ok) \<and>
   memoryStore (snd (create_record e topic content importance ctx metadata st)) \<noteq> memoryStore st"
proof (cases "content \<noteq> [] \<and> map_of (memoryStore st) topic \<noteq> None")
  case True
  then obtain t where t: "map_of (memoryStore st) topic = Some t" and c: "content \<noteq> []" by auto
  have "map_of (memoryStore st) topic \<noteq>
        Some (t\<lparr>t_records := t_records t @ [nr], t_updatedAt := u\<rparr>)" for nr u
    unfolding t by (rule topic_records_changed) simp
  then show ?thesis
    using t c by (simp add: create_record_def Let_def update_changes)
next
  case False
  assume "memoryStats (snd (create_record e topic content importance ctx metadata st)) \<noteq> memoryStats st"
  with False show ?thesis
    by (auto simp: create_record_def split: option.splits if_splits)
qed

lemma update_topic_stats:
  "memoryStats (snd (update_topic e topic description tags st)) = memoryStats st"
  by (simp add: update_topic_def Let_def split: option.splits)

lemma update_record_stats:
  "memoryStats (snd (update_record e topic content importance ctx metadata recordId st)) = memoryStats st"
  by (simp add: update_record_def Let_def split: option.splits)

lemma delete_topic_touch:
  "memoryStats (snd (delete_topic e topic confirm st)) \<noteq> memoryStats st \<Longrightarrow>
   (\<exists>ok. fst (delete_topic e topic confirm st) = Inr ok) \<and>
   memoryStore (snd (delete_topic e topic confirm st)) \<noteq> memoryStore st"
  by (auto simp: delete_topic_def Let_def delete_changes split: option.splits if_splits)

lemma remove_at_shorter:
  "i < length xs \<Longrightarrow> length (take i xs @ drop (Suc i) xs) \<noteq> length xs"
  by simp

lemma delete_record_touch:
  "memoryStats (snd (delete_record e topic recordId st)) \<noteq> memoryStats st \<Longrightarrow>
   (\<exists>ok. fst (delete_record e topic recordId st) = Inr ok) \<and>
   memoryStore (snd (delete_record e topic recordId st)) \<noteq> memoryStore st"
proof (cases "recordId \<noteq> [] \<and> map_of (memoryStore st) topic \<noteq> None")
  case True
  then obtain t where t: "map_of (memoryStore st) topic = Some t" and c: "recordId \<noteq> []" by auto
  assume touched: "memoryStats (snd (delete_record e topic recordId st)) \<noteq> memoryStats st"
  show ?thesis
  proof (cases "findIndex (\<lambda>r. r_id r = recordId) (t_records t)")
    case None
    with t c touched show ?thesis by (simp add: delete_record_def)
  next
    case (Some i)
    then have "i < length (t_records t)"
      by (simp add: findIndex_Some)
    then have shorter:
      "length (take i (t_records t) @ drop (Suc i) (t_records t)) \<noteq> length (t_records t)"
      by (rule remove_at_shorter)
    have "map_of (memoryStore st) topic \<noteq>
        Some (t\<lparr>t_records := take i (t_records t) @ drop (Suc i) (t_records t), t_updatedAt := u\<rparr>)"
      for u unfolding t by (rule topic_records_changed [OF shorter])
    then show ?thesis
      using t c Some by (simp add: delete_record_def Let_def update_changes)
  qed
next
  case False
  assume "memoryStats (snd (delete_record e topic recordId st)) \<noteq> memoryStats st"
  with False show ?thesis
    by (auto simp: delete_record_def split: option.splits if_splits)
qed

subsection \<open>Evaluation at concrete inputs, and the statistics after each case\<close>

lemmas eval_manage =
  st_one_def env1_def env2_def initial_state_def initial_stats_def memory_manage_def
  create_topic_def create_record_def update_topic_def update_record_def delete_topic_def
  delete_record_def updateStats_def Let_def calculateRecordSize_def json_string_length_def
  json_char_length_def iso_length_def AList.delete_eq assign_record_fields_def

lemma calculateRecordSize_positive: "0 < calculateRecordSize r"
  by (simp add: calculateRecordSize_def)

lemma updateStats_access:
  "accessCount (updateStats now action tp rc s) = accessCount s + 1 \<and>
   lastAccessTime (updateStats now action tp rc s) = Some now"
  by (cases action; cases rc) (simp_all add: updateStats_def)

lemma create_topic_stats:
  "fst (create_topic e topic description tags st) = Inr ok \<Longrightarrow>
   memoryStats (snd (create_topic e topic description tags st)) =
     updateStats (clock e 2) add_topic None None (memoryStats st)"
  by (auto simp: create_topic_def Let_def split: option.splits)

lemma create_record_stats:
  "fst (create_record e topic content importance ctx metadata st) = Inr ok \<Longrightarrow>
   \<exists>r n. ok = RecordAdded r n \<and>
     memoryStats (snd (create_record e topic content importance ctx metadata st)) =
       updateStats (clock e 3) add_record (Some topic) (Some r) (memoryStats st)"
  by (auto simp: create_record_def Let_def split: option.splits if_splits)

lemma delete_topic_stats:
  "fst (delete_topic e topic confirm st) = Inr ok \<Longrightarrow>
   memoryStats (snd (delete_topic e topic confirm st)) =
     updateStats (clock e 0) remove_topic (Some topic) None (memoryStats st)"
  by (auto simp: delete_topic_def Let_def split: option.splits if_splits)

lemma delete_record_stats:
  "fst (delete_record e topic recordId st) = Inr ok \<Longrightarrow>
   \<exists>r n. ok = RecordDeleted r n \<and>
     memoryStats (snd (delete_record e topic recordId st)) =
       updateStats (clock e 1) remove_record (Some topic) (Some r) (memoryStats st)"
  by (auto simp: delete_record_def Let_def split: option.splits if_splits)

subsection \<open>Sorting by importance\<close>

lemma importanceOrder_cases:
  "importanceOrder i = 3 \<or> importanceOrder i = 2 \<or> importanceOrder i = 1"
  by (cases i) simp_all

lemma importanceOrder_eq:
  "(importanceOrder i = 3) = (i = High)"
  "(importanceOrder i = 2) = (i = Medium)"
  "(importanceOrder i = 1) = (i = Low)"
  by (cases i; simp)+

lemma importanceOrder_inj: "(importanceOrder i = importanceOrder j) = (i = j)"
  by (cases i; cases j; simp)

lemma sort_by_importance:
  "js_sort (\<lambda>a b. importanceOrder (r_importance b) - importanceOrder (r_importance a)) rs =
     filter (\<lambda>r. r_importance r = High) rs @ filter (\<lambda>r. r_importance r = Medium) rs @
     filter (\<lambda>r. r_importance r = Low) rs"
proof -
  let ?key = "\<lambda>r. importanceOrder (r_importance r)"
  have "\<forall>r\<in>set rs. ?key r = 3 \<or> ?key r = 2 \<or> ?key r = 1"
    by (simp add: importanceOrder_cases)
  from js_sort_three_classes [OF this] show ?thesis
    by (simp add: importanceOrder_eq)
qed

subsection \<open>The scan of the search\<close>

lemma js_sort_set: "set (js_sort (\<lambda>a b. k b - k a) xs) = set xs"
  by (simp add: js_sort_sort_key)










section \<open>Deleting a topic\<close>

text \<open>
  Claim C1, at the state of a fresh server after one topic and one record were created.
  Deleting the topic without confirmation answers with the preview and leaves the state as
  it is. Deleting it with confirmation empties the store and lowers the topic counter from
  1 to 0, but the record counter stays 1 and the size total stays 152 although no record
  is left: \<open>delete_topic\<close> records \<open>remove_topic\<close> only and nothing for the records that
  go with the topic.
\<close>

theorem delete_topic_keeps_record_count:
  "memoryStore st_one =
     [(''Notes'',
       \<lparr>t_id = ''id1'', t_name = ''Notes'', t_description = ''d'', t_tags = [],
        t_records =
          [\<lparr>r_id = ''id2'', r_content = ''hello'', r_importance = Medium, r_context = [],
            r_metadata = [], r_createdAt = 200, r_updatedAt = 201\<rparr>],
        t_createdAt = 100, t_updatedAt = 202\<rparr>)] \<and>
   totalTopics (memoryStats st_one) = 1 \<and>
   totalRecords (memoryStats st_one) = 1 \<and>
   delete_topic env3 ''Notes'' False st_one = (Inl (ConfirmationRequired ''d'' [] 1 100), st_one) \<and>
   fst (delete_topic env3 ''Notes'' True st_one) = Inr (TopicDeleted ''Notes'' 1 ''d'' 0) \<and>
   memoryStore (snd (delete_topic env3 ''Notes'' True st_one)) = [] \<and>
   totalTopics (memoryStats (snd (delete_topic env3 ''Notes'' True st_one))) = 0 \<and>
   totalRecords (memoryStats (snd (delete_topic env3 ''Notes'' True st_one))) = 1 \<and>
   totalMemorySize (memoryStats (snd (delete_topic env3 ''Notes'' True st_one))) =
     totalMemorySize (memoryStats st_one) \<and>
   totalMemorySize (memoryStats st_one) = 152"
  by (simp add: st_one_def env1_def env2_def env3_def initial_state_def initial_stats_def create_topic_def
      create_record_def delete_topic_def updateStats_def Let_def calculateRecordSize_def
      json_string_length_def json_char_length_def iso_length_def AList.delete_eq)

section \<open>Searching\<close>






section \<open>When the statistics are recorded\<close>

text \<open>
  Claim C4, as stated, fails: a successful update of a topic changes the store and does not
  call \<open>updateStats\<close>, so the access count and the last access time stay as they were.
\<close>

theorem update_topic_skips_updateStats:
  "fst (memory_manage env3 args_rename st_one) =
     Inr (TopicUpdated
            \<lparr>t_id = ''id1'', t_name = ''Notes'', t_description = ''new'', t_tags = [],
             t_records =
               [\<lparr>r_id = ''id2'', r_content = ''hello'', r_importance = Medium, r_context = [],
                 r_metadata = [], r_createdAt = 200, r_updatedAt = 201\<rparr>],
             t_createdAt = 100, t_updatedAt = 300\<rparr>) \<and>
   memoryStore (snd (memory_manage env3 args_rename st_one)) \<noteq> memoryStore st_one \<and>
   accessCount (memoryStats st_one) = 2 \<and>
   lastAccessTime (memoryStats st_one) = Some 203 \<and>
   accessCount (memoryStats (snd (memory_manage env3 args_rename st_one))) = 2 \<and>
   lastAccessTime (memoryStats (snd (memory_manage env3 args_rename st_one))) = Some 203"
  by (simp add: eval_manage env3_def args_rename_def)

text \<open>
  Claim C4, amended. Every call of \<open>updateStats\<close> raises the access count by one and sets
  the last access time, whatever the action. The management tool calls it once after
  every successful creation and deletion of a topic or a record, with the matching action,
  and never in an update of a topic or a record, which leaves all statistics as they
  were. The counters have no floor at zero: \<open>remove_topic\<close> and \<open>remove_record\<close> subtract
  from any value, so on the initial statistics one removal makes the topic counter, the
  record counter and the size total negative.
\<close>

theorem updateStats_after_create_and_delete:
  "(accessCount (updateStats now action tp rc s) = accessCount s + 1 \<and>
    lastAccessTime (updateStats now action tp rc s) = Some now) \<and>
   (\<forall>ok. fst (memory_manage e a st) = Inr ok \<longrightarrow>
      (a_action a = CreateTopic \<longrightarrow>
         memoryStats (snd (memory_manage e a st)) =
           updateStats (clock e 2) add_topic None None (memoryStats st)) \<and>
      (a_action a = CreateRecord \<longrightarrow>
         (\<exists>r n. ok = RecordAdded r n \<and>
            memoryStats (snd (memory_manage e a st)) =
              updateStats (clock e 3) add_record (Some (a_topic a)) (Some r) (memoryStats st))) \<and>
      (a_action a = DeleteTopic \<longrightarrow>
         memoryStats (snd (memory_manage e a st)) =
           updateStats (clock e 0) remove_topic (Some (a_topic a)) None (memoryStats st)) \<and>
      (a_action a = DeleteRecord \<longrightarrow>
         (\<exists>r n. ok = RecordDeleted r n \<and>
            memoryStats (snd (memory_manage e a st)) =
              updateStats (clock e 1) remove_record (Some (a_topic a)) (Some r) (memoryStats st)))) \<and>
   (a_action a = UpdateTopic \<or> a_action a = UpdateRecord \<longrightarrow>
      memoryStats (snd (memory_manage e a st)) = memoryStats st) \<and>
   totalTopics (updateStats now remove_topic tp rc s) = totalTopics s - 1 \<and>
   totalRecords (updateStats now remove_record tp rc s) = totalRecords s - 1 \<and>
   totalMemorySize (updateStats now remove_record tp (Some r0) s) =
     totalMemorySize s - int (calculateRecordSize r0) \<and>
   totalTopics (updateStats now remove_topic tp rc initial_stats) < 0 \<and>
   totalRecords (updateStats now remove_record tp rc initial_stats) < 0 \<and>
   totalMemorySize (updateStats now remove_record tp (Some r0) initial_stats) < 0"
  (is "?access \<and> ?called \<and> ?silent \<and> ?topics \<and> ?records \<and> ?size \<and> ?neg1 \<and> ?neg2 \<and> ?neg3")
proof (intro conjI)
  show "accessCount (updateStats now action tp rc s) = accessCount s + 1"
    and "lastAccessTime (updateStats now action tp rc s) = Some now"
    by (simp_all add: updateStats_access)
  show ?called
    using create_topic_stats create_record_stats delete_topic_stats delete_record_stats
    by (auto simp: memory_manage_def)
  show ?silent
    by (auto simp: memory_manage_def update_topic_stats update_record_stats)
  show ?topics
    by (simp add: updateStats_def)
  show ?records
    by (cases rc) (simp_all add: updateStats_def)
  show ?size
    by (simp add: updateStats_def)
  show ?neg1
    by (simp add: updateStats_def initial_stats_def)
  show ?neg2
    by (cases rc) (simp_all add: updateStats_def initial_stats_def)
  show ?neg3
    using calculateRecordSize_positive [of r0] by (simp add: updateStats_def initial_stats_def)
qed

theorem updateStats_after_create_and_delete_witness:
  "a_action args_delete_record = DeleteRecord \<and>
   fst (memory_manage env4 args_delete_record st_grown) =
     Inr (RecordDeleted
            \<lparr>r_id = ''id2'', r_content = ''hello, hello, hello'', r_importance = Medium,
             r_context = [], r_metadata = [], r_createdAt = 200, r_updatedAt = 300\<rparr> 0) \<and>
   totalMemorySize (memoryStats st_grown) = 152 \<and>
   totalRecords (memoryStats (snd (memory_manage env4 args_delete_record st_grown))) = 0 \<and>
   totalMemorySize (memoryStats (snd (memory_manage env4 args_delete_record st_grown))) = - 14 \<and>
   accessCount (memoryStats (snd (memory_manage env4 args_delete_record st_grown))) = 3 \<and>
   totalTopics (updateStats 1 remove_topic None None initial_stats) = - 1"
  using updateStats_after_create_and_delete
    [of 1 remove_topic None None initial_stats env4 args_delete_record st_grown
      "\<lparr>r_id = ''id2'', r_content = ''hello, hello, hello'', r_importance = Medium,
             r_context = [], r_metadata = [], r_createdAt = 200, r_updatedAt = 300\<rparr>"]
  by (simp add: eval_manage st_grown_def env3_def env4_def args_delete_record_def)

section \<open>Creating a topic\<close>

text \<open>
  Claim C5. For every store state, creating a topic whose name is already present fails
  with AlreadyExists, answers with the summary of the existing topic (description, tags,
  number of records) and leaves the state unchanged. Creating a fresh name appends a new
  topic with an empty record sequence to the store and records an \<open>add_topic\<close> event, which
  raises the topic counter by one. After two creations of the same name the second has
  failed with AlreadyExists, has changed nothing, and the store holds exactly one topic of
  that name.
\<close>

theorem create_topic_spec:
  "(\<forall>t. map_of (memoryStore st) topic = Some t \<longrightarrow>
      create_topic e topic description tags st =
        (Inl (AlreadyExists (t_description t) (t_tags t) (length (t_records t))), st)) \<and>
   (map_of (memoryStore st) topic = None \<longrightarrow>
      create_topic e topic description tags st =
        (Inr (TopicCreated
               \<lparr>t_id = gen_id e, t_name = topic, t_description = description, t_tags = tags,
                t_records = [], t_createdAt = clock e 0, t_updatedAt = clock e 1\<rparr>),
         st\<lparr>memoryStore := memoryStore st @
               [(topic, \<lparr>t_id = gen_id e, t_name = topic, t_description = description,
                         t_tags = tags, t_records = [], t_createdAt = clock e 0,
                         t_updatedAt = clock e 1\<rparr>)],
            memoryStats := updateStats (clock e 2) add_topic None None (memoryStats st)\<rparr>) \<and>
      totalTopics (memoryStats (snd (create_topic e topic description tags st))) =
        totalTopics (memoryStats st) + 1) \<and>
   (distinct (map fst (memoryStore st)) \<longrightarrow>
      (\<exists>d g n. fst (create_topic e' topic description' tags'
                      (snd (create_topic e topic description tags st))) =
                Inl (AlreadyExists d g n)) \<and>
      snd (create_topic e' topic description' tags' (snd (create_topic e topic description tags st)))
        = snd (create_topic e topic description tags st) \<and>
      length (filter (\<lambda>kv. fst kv = topic)
                (memoryStore (snd (create_topic e' topic description' tags'
                                     (snd (create_topic e topic description tags st)))))) = 1)"
  (is "?exists \<and> ?fresh \<and> ?twice")
proof (intro conjI)
  show ?exists
    by (simp add: create_topic_present)
  show ?fresh
    by (simp add: create_topic_fresh updateStats_add_topic)
  show ?twice
  proof (cases "map_of (memoryStore st) topic")
    case None
    obtain r1 st1 where run1: "create_topic e topic description tags st = (r1, st1)"
      by (cases "create_topic e topic description tags st")
    with None have st1: "memoryStore st1 = memoryStore st @
            [(topic, \<lparr>t_id = gen_id e, t_name = topic, t_description = description,
                      t_tags = tags, t_records = [], t_createdAt = clock e 0,
                      t_updatedAt = clock e 1\<rparr>)]"
      by (auto simp: create_topic_fresh)
    then have "map_of (memoryStore st1) topic =
        Some \<lparr>t_id = gen_id e, t_name = topic, t_description = description,
                      t_tags = tags, t_records = [], t_createdAt = clock e 0,
                      t_updatedAt = clock e 1\<rparr>"
      using None by (simp add: map_add_def)
    then have "create_topic e' topic description' tags' st1 =
        (Inl (AlreadyExists description tags 0), st1)"
      by (simp add: create_topic_present)
    then show ?thesis
      using None by (simp add: run1 st1 count_key_absent)
  next
    case (Some t)
    then show ?thesis
      by (simp add: create_topic_present count_key_distinct)
  qed
qed

theorem create_topic_spec_witness:
  "map_of (memoryStore st_notes) ''Notes'' \<noteq> None \<and>
   create_topic env1 ''Notes'' ''x'' [] st_notes = (Inl (AlreadyExists ''d'' [''a''] 0), st_notes) \<and>
   map_of (memoryStore initial_state) ''Notes'' = None \<and>
   distinct (map fst (memoryStore initial_state)) \<and>
   totalTopics (memoryStats (snd (create_topic env1 ''Notes'' ''d'' [] initial_state))) = 1 \<and>
   length (filter (\<lambda>kv. fst kv = ''Notes'')
     (memoryStore (snd (create_topic env1 ''Notes'' ''x'' []
        (snd (create_topic env1 ''Notes'' ''d'' [] initial_state)))))) = 1"
  using create_topic_spec [of st_notes "''Notes''" env1 "''x''" "[]" env1 "''x''" "[]"]
    create_topic_spec [of initial_state "''Notes''" env1 "''d''" "[]" env1 "''x''" "[]"]
  by (simp add: st_notes_def initial_state_def initial_stats_def create_topic_def Let_def
      updateStats_def env1_def)

section \<open>Creating a record\<close>

text \<open>
  Claim C6. For every store state, creating a record fails with ValidationError when the
  content is empty, and with NotFound when the content is not empty and the named topic is
  absent. Otherwise the new record goes to the end of the record sequence of that topic,
  the topic's \<open>updatedAt\<close> is refreshed, every other topic and the order of the topics stay
  as they are, and an \<open>add_record\<close> event is recorded: the record count goes up by one and
  the size total by the serialised size of the new record.
\<close>

theorem create_record_spec:
  "(content = [] \<longrightarrow>
      create_record e topic content importance ctx metadata st =
        (Inl (ValidationError EmptyContent), st)) \<and>
   (content \<noteq> [] \<and> map_of (memoryStore st) topic = None \<longrightarrow>
      create_record e topic content importance ctx metadata st =
        (Inl (NotFound TopicAbsent), st)) \<and>
   (\<forall>t. content \<noteq> [] \<and> map_of (memoryStore st) topic = Some t \<longrightarrow>
      (let nr = \<lparr>r_id = gen_id e, r_content = content, r_importance = importance,
                 r_context = ctx, r_metadata = metadata,
                 r_createdAt = clock e 0, r_updatedAt = clock e 1\<rparr>;
           st' = snd (create_record e topic content importance ctx metadata st)
       in fst (create_record e topic content importance ctx metadata st) =
            Inr (RecordAdded nr (Suc (length (t_records t)))) \<and>
          map_of (memoryStore st') topic =
            Some (t\<lparr>t_records := t_records t @ [nr], t_updatedAt := clock e 2\<rparr>) \<and>
          map fst (memoryStore st') = map fst (memoryStore st) \<and>
          (\<forall>k. k \<noteq> topic \<longrightarrow> map_of (memoryStore st') k = map_of (memoryStore st) k) \<and>
          totalRecords (memoryStats st') = totalRecords (memoryStats st) + 1 \<and>
          totalMemorySize (memoryStats st') =
            totalMemorySize (memoryStats st) + int (calculateRecordSize nr) \<and>
          totalTopics (memoryStats st') = totalTopics (memoryStats st) \<and>
          accessCount (memoryStats st') = accessCount (memoryStats st) + 1 \<and>
          lastAccessTime (memoryStats st') = Some (clock e 3)))"
  (is "?empty \<and> ?absent \<and> ?ok")
proof (intro conjI)
  show ?empty
    by (simp add: create_record_def)
  show ?absent
    by (simp add: create_record_def)
  show ?ok
    by (simp add: create_record_ok Let_def update_conv' keys_update_present
        updateStats_add_record)
qed

theorem create_record_spec_witness:
  "create_record env1 ''Notes'' [] Medium [] [] st_two = (Inl (ValidationError EmptyContent), st_two) \<and>
   map_of (memoryStore st_two) ''Other'' = None \<and>
   create_record env1 ''Other'' ''c'' Medium [] [] st_two = (Inl (NotFound TopicAbsent), st_two) \<and>
   map_of (memoryStore st_two) ''Notes'' = Some topic_two \<and>
   map (r_content) (t_records (snd (hd (memoryStore
      (snd (create_record env1 ''Notes'' ''third'' Medium [] [] st_two)))))) =
     [''hello world'', ''second'', ''third''] \<and>
   totalRecords (memoryStats (snd (create_record env1 ''Notes'' ''third'' Medium [] [] st_two))) = 3 \<and>
   totalMemorySize (memoryStats (snd (create_record env1 ''Notes'' ''third'' Medium [] [] st_two)))
     = 330 + 152"
  using create_record_spec [of "[]" env1 "''Notes''" Medium "[]" "[]" st_two]
    create_record_spec [of "''c''" env1 "''Other''" Medium "[]" "[]" st_two]
    create_record_spec [of "''third''" env1 "''Notes''" Medium "[]" "[]" st_two]
  by (simp add: st_two_def topic_two_def rec_hello_def rec_second_def env1_def
      create_record_def Let_def updateStats_def calculateRecordSize_def
      json_string_length_def json_char_length_def iso_length_def)

section \<open>Updating a record\<close>

text \<open>
  Claim C7. For every topic of the store and every record of it with a non-empty id,
  \<open>update_record\<close> finds the first record of the topic with that id (the record itself when
  the ids of the topic are distinct) and succeeds. It overwrites content and context only
  when the supplied string is not empty, importance only when the supplied value is not
  the default \<open>Medium\<close>, and merges the supplied metadata into the existing metadata only
  when the supplied object is not empty: supplied keys win, the other keys keep their
  values, and the existing keys keep their order among themselves. The record's and the
  topic's \<open>updatedAt\<close> are refreshed; the record's id and creation time, its place in the
  sequence, the other topics and the statistics are unchanged.
\<close>

theorem update_record_spec:
  "map_of (memoryStore st) topic = Some t \<and> r \<in> set (t_records t) \<and> r_id r \<noteq> [] \<longrightarrow>
     (\<exists>i r0 r'.
        findIndex (\<lambda>x. r_id x = r_id r) (t_records t) = Some i \<and>
        i < length (t_records t) \<and> r0 = t_records t ! i \<and> r_id r0 = r_id r \<and>
        (distinct (map r_id (t_records t)) \<longrightarrow> r0 = r) \<and>
        fst (update_record e topic content importance ctx metadata (r_id r) st) =
          Inr (RecordUpdated r') \<and>
        r_content r' = (if content = [] then r_content r0 else content) \<and>
        r_context r' = (if ctx = [] then r_context r0 else ctx) \<and>
        r_importance r' = (if importance = Medium then r_importance r0 else importance) \<and>
        (metadata = [] \<longrightarrow> r_metadata r' = r_metadata r0) \<and>
        (metadata \<noteq> [] \<and> distinct (map fst metadata) \<longrightarrow>
           (\<forall>k. map_of (r_metadata r') k =
                  (case map_of metadata k of Some v \<Rightarrow> Some v
                   | None \<Rightarrow> map_of (r_metadata r0) k))) \<and>
        subseq (map fst (r_metadata r0)) (map fst (r_metadata r')) \<and>
        r_updatedAt r' = clock e 0 \<and> r_id r' = r_id r0 \<and> r_createdAt r' = r_createdAt r0 \<and>
        map_of (memoryStore (snd (update_record e topic content importance ctx metadata (r_id r) st)))
            topic =
          Some (t\<lparr>t_records := (t_records t)[i := r'], t_updatedAt := clock e 1\<rparr>) \<and>
        map fst (memoryStore (snd (update_record e topic content importance ctx metadata (r_id r) st)))
          = map fst (memoryStore st) \<and>
        (\<forall>k. k \<noteq> topic \<longrightarrow>
           map_of (memoryStore (snd (update_record e topic content importance ctx metadata (r_id r) st))) k
             = map_of (memoryStore st) k) \<and>
        memoryStats (snd (update_record e topic content importance ctx metadata (r_id r) st)) =
          memoryStats st)"
  (is "?pre \<longrightarrow> (\<exists>i r0 r'. ?post i r0 r')")
proof
  assume pre: ?pre
  then have t: "map_of (memoryStore st) topic = Some t" and r: "r \<in> set (t_records t)"
    and rid: "r_id r \<noteq> []"
    by simp_all
  from r obtain i where i: "findIndex (\<lambda>x. r_id x = r_id r) (t_records t) = Some i"
    using findIndex_exists [of r "t_records t" "\<lambda>x. r_id x = r_id r"] by auto
  define r0 where "r0 = t_records t ! i"
  define r' where "r' = assign_record_fields (clock e 0) content importance ctx metadata r0"
  from findIndex_Some [OF i] have bound: "i < length (t_records t)" and same: "r_id r0 = r_id r"
    by (simp_all add: r0_def)
  have uniq: "distinct (map r_id (t_records t)) \<longrightarrow> r0 = r"
    using findIndex_distinct [of r_id "t_records t" r i] r i by (simp add: r0_def)
  have run: "update_record e topic content importance ctx metadata (r_id r) st =
      (Inr (RecordUpdated r'),
       st\<lparr>memoryStore :=
            AList.update topic (t\<lparr>t_records := (t_records t)[i := r'], t_updatedAt := clock e 1\<rparr>)
              (memoryStore st)\<rparr>)"
    using update_record_ok [OF rid t i] by (simp add: r'_def r0_def)
  have fields:
    "r_content r' = (if content = [] then r_content r0 else content)"
    "r_context r' = (if ctx = [] then r_context r0 else ctx)"
    "r_importance r' = (if importance = Medium then r_importance r0 else importance)"
    "metadata = [] \<longrightarrow> r_metadata r' = r_metadata r0"
    "r_updatedAt r' = clock e 0" "r_id r' = r_id r0" "r_createdAt r' = r_createdAt r0"
    by (simp_all add: r'_def assign_record_fields_def Let_def)
  have md: "r_metadata r' = (if metadata = [] then r_metadata r0 else spread (r_metadata r0) metadata)"
    by (simp add: r'_def assign_record_fields_def Let_def)
  have merge: "metadata \<noteq> [] \<and> distinct (map fst metadata) \<longrightarrow>
           (\<forall>k. map_of (r_metadata r') k =
                  (case map_of metadata k of Some v \<Rightarrow> Some v
                   | None \<Rightarrow> map_of (r_metadata r0) k))"
    by (simp add: md map_of_spread)
  have keys: "subseq (map fst (r_metadata r0)) (map fst (r_metadata r'))"
    by (simp add: md subseq_keys_spread)
  have frame:
    "map fst (memoryStore (snd (update_record e topic content importance ctx metadata (r_id r) st)))
          = map fst (memoryStore st)"
    using t by (simp add: run keys_update_present)
  have "?post i r0 r'"
    using i bound same uniq fields merge keys frame
    by (simp add: run update_conv' r0_def)
  then show "\<exists>i r0 r'. ?post i r0 r'" by blast
qed

theorem update_record_spec_witness:
  "map_of (memoryStore st_two) ''Notes'' = Some topic_two \<and>
   rec_second \<in> set (t_records topic_two) \<and> r_id rec_second \<noteq> [] \<and>
   distinct (map r_id (t_records topic_two)) \<and>
   distinct (map fst [(''n'', JStr ''x''), (''7'', JNull)]) \<and>
   update_record env1 ''Notes'' [] Medium ''new'' [(''n'', JStr ''x''), (''7'', JNull)]
       (r_id rec_second) st_two =
     (Inr (RecordUpdated
        \<lparr>r_id = ''r2'', r_content = ''second'', r_importance = Low, r_context = ''new'',
         r_metadata = [(''7'', JNull), (''n'', JStr ''x''), (''flag'', JBool True)],
         r_createdAt = 11, r_updatedAt = 100\<rparr>),
      st_two\<lparr>memoryStore :=
        [(''Notes'', topic_two\<lparr>t_records :=
            [rec_hello,
             \<lparr>r_id = ''r2'', r_content = ''second'', r_importance = Low, r_context = ''new'',
              r_metadata = [(''7'', JNull), (''n'', JStr ''x''), (''flag'', JBool True)],
              r_createdAt = 11, r_updatedAt = 100\<rparr>],
            t_updatedAt := 101\<rparr>)]\<rparr>)"
  using update_record_spec [of st_two "''Notes''" topic_two rec_second env1 "[]" Medium "''new''"
      "[(''n'', JStr ''x''), (''7'', JNull)]"]
  by (simp add: st_two_def topic_two_def rec_hello_def rec_second_def env1_def
      update_record_def assign_record_fields_def spread_def set_property_def array_index_def
      digit_value_def Let_def)

section \<open>Updating a topic\<close>

text \<open>
  Claim C8. \<open>update_topic\<close> fails with NotFound when the topic is absent. For every
  existing topic it overwrites the description only when the supplied string is not empty
  and the tags only when the supplied list is not empty, so neither can be cleared by an
  update; it sets \<open>updatedAt\<close> in every case; the id, the name, the record sequence and the
  creation time of the topic, the other topics, the order of the topics and the statistics
  are unchanged.
\<close>

theorem update_topic_frame:
  "(map_of (memoryStore st) topic = None \<longrightarrow>
      update_topic e topic description tags st = (Inl (NotFound TopicAbsent), st)) \<and>
   (\<forall>t. map_of (memoryStore st) topic = Some t \<longrightarrow>
      (\<exists>t'. update_topic e topic description tags st =
              (Inr (TopicUpdated t'), st\<lparr>memoryStore := AList.update topic t' (memoryStore st)\<rparr>) \<and>
            map_of (memoryStore (snd (update_topic e topic description tags st))) topic = Some t' \<and>
            t_description t' = (if description = [] then t_description t else description) \<and>
            t_tags t' = (if tags = [] then t_tags t else tags) \<and>
            (t_description t \<noteq> [] \<longrightarrow> t_description t' \<noteq> []) \<and>
            (t_tags t \<noteq> [] \<longrightarrow> t_tags t' \<noteq> []) \<and>
            t_updatedAt t' = clock e 0 \<and>
            t_id t' = t_id t \<and> t_name t' = t_name t \<and>
            t_records t' = t_records t \<and> t_createdAt t' = t_createdAt t \<and>
            map fst (memoryStore (snd (update_topic e topic description tags st))) =
              map fst (memoryStore st) \<and>
            (\<forall>k. k \<noteq> topic \<longrightarrow>
               map_of (memoryStore (snd (update_topic e topic description tags st))) k =
               map_of (memoryStore st) k) \<and>
            memoryStats (snd (update_topic e topic description tags st)) = memoryStats st))"
  (is "?absent \<and> (\<forall>t. ?present t \<longrightarrow> (\<exists>t'. ?post t t'))")
proof (rule conjI)
  show ?absent
    by (simp add: update_topic_def)
next
  show "\<forall>t. ?present t \<longrightarrow> (\<exists>t'. ?post t t')"
  proof (intro allI impI)
  fix t
  assume present: "?present t"
  define t' where
    "t' = (if tags \<noteq> [] then (if description \<noteq> [] then t\<lparr>t_description := description\<rparr> else t)\<lparr>t_tags := tags\<rparr>
           else (if description \<noteq> [] then t\<lparr>t_description := description\<rparr> else t))\<lparr>t_updatedAt := clock e 0\<rparr>"
  have run: "update_topic e topic description tags st =
      (Inr (TopicUpdated t'), st\<lparr>memoryStore := AList.update topic t' (memoryStore st)\<rparr>)"
    using present by (simp add: update_topic_def t'_def Let_def)
  have keys: "map fst (memoryStore (snd (update_topic e topic description tags st))) =
              map fst (memoryStore st)"
    using present by (simp add: run keys_update_present)
  have "?post t t'"
    using keys by (simp add: run update_conv' t'_def)
  then show "\<exists>t'. ?post t t'" ..
  qed
qed

theorem update_topic_frame_witness:
  "map_of (memoryStore initial_state) ''Notes'' = None \<and>
   update_topic env1 ''Notes'' ''x'' [''b''] initial_state = (Inl (NotFound TopicAbsent), initial_state) \<and>
   map_of (memoryStore st_notes) ''Notes'' =
     Some \<lparr>t_id = ''t1'', t_name = ''Notes'', t_description = ''d'', t_tags = [''a''],
           t_records = [], t_createdAt = 5, t_updatedAt = 6\<rparr> \<and>
   update_topic env1 ''Notes'' [] [] st_notes =
     (Inr (TopicUpdated \<lparr>t_id = ''t1'', t_name = ''Notes'', t_description = ''d'', t_tags = [''a''],
           t_records = [], t_createdAt = 5, t_updatedAt = 100\<rparr>),
      st_notes\<lparr>memoryStore :=
        [(''Notes'', \<lparr>t_id = ''t1'', t_name = ''Notes'', t_description = ''d'', t_tags = [''a''],
           t_records = [], t_createdAt = 5, t_updatedAt = 100\<rparr>)]\<rparr>) \<and>
   memoryStats (snd (update_topic env1 ''Notes'' [] [] st_notes)) = memoryStats st_notes"
  using update_topic_frame [of initial_state "''Notes''" env1 "''x''" "[''b'']"]
    update_topic_frame [of st_notes "''Notes''" env1 "[]" "[]"]
  by (simp add: st_notes_def initial_state_def initial_stats_def update_topic_def Let_def env1_def)

section \<open>Viewing a topic by importance\<close>

text \<open>
  Claim C9, as stated, fails: for the empty topic name, which names no topic, \<open>view_topic\<close>
  fails with ValidationError (the topic name must not be empty) and not with NotFound.
\<close>

theorem view_topic_empty_name_not_NotFound:
  "map_of (memoryStore initial_state) [] = None \<and>
   view_topic [] ByImportance 10 initial_state = Inl (ValidationError EmptyTopicName) \<and>
   view_topic [] ByImportance 10 initial_state \<noteq> Inl (NotFound TopicAbsent)"
  by (simp add: view_topic_def initial_state_def)

text \<open>
  Claim C9, amended. \<open>view_topic\<close> fails with ValidationError when the topic name is empty
  and with NotFound when the name is not empty and the topic is absent. For every existing
  topic with a non-empty name, \<open>view_topic\<close> sorted by importance answers with the records
  of the topic ordered high before medium before low, the records of equal importance in
  their insertion order (a stable sort: a permutation, descending, equal to the original
  sequence on each importance), truncated to \<open>limit\<close>, with the total number of records and,
  when that exceeds \<open>limit\<close>, the number not shown.
\<close>

theorem view_topic_by_importance:
  "(topic = [] \<longrightarrow> view_topic topic sortBy limit st = Inl (ValidationError EmptyTopicName)) \<and>
   (topic \<noteq> [] \<and> map_of (memoryStore st) topic = None \<longrightarrow>
      view_topic topic sortBy limit st = Inl (NotFound TopicAbsent)) \<and>
   (\<forall>t. topic \<noteq> [] \<and> map_of (memoryStore st) topic = Some t \<longrightarrow>
      (\<exists>ordered.
         view_topic topic ByImportance limit st =
           Inr \<lparr>v_topic = t, v_displayRecords = take limit ordered,
                v_totalRecords = length (t_records t),
                v_notShown = (if limit < length (t_records t)
                              then Some (length (t_records t) - limit) else None)\<rparr> \<and>
         ordered =
           filter (\<lambda>r. r_importance r = High) (t_records t) @
           filter (\<lambda>r. r_importance r = Medium) (t_records t) @
           filter (\<lambda>r. r_importance r = Low) (t_records t) \<and>
         sorted_wrt (\<lambda>a b. importanceOrder (r_importance b) \<le> importanceOrder (r_importance a))
           ordered \<and>
         mset ordered = mset (t_records t) \<and>
         (\<forall>i. filter (\<lambda>r. r_importance r = i) ordered =
                filter (\<lambda>r. r_importance r = i) (t_records t))))"
  (is "?empty \<and> ?absent \<and> (\<forall>t. ?present t \<longrightarrow> (\<exists>ordered. ?post t ordered))")
proof (intro conjI)
  show ?empty
    by (simp add: view_topic_def)
  show ?absent
    by (simp add: view_topic_def)
  show "\<forall>t. ?present t \<longrightarrow> (\<exists>ordered. ?post t ordered)"
  proof (intro allI impI)
    fix t
    assume present: "?present t"
    let ?cmp = "\<lambda>a b. importanceOrder (r_importance b) - importanceOrder (r_importance a)"
    let ?key = "\<lambda>r. importanceOrder (r_importance r)"
    define ordered where "ordered = js_sort ?cmp (t_records t)"
    have run: "view_topic topic ByImportance limit st =
           Inr \<lparr>v_topic = t, v_displayRecords = take limit ordered,
                v_totalRecords = length (t_records t),
                v_notShown = (if limit < length (t_records t)
                              then Some (length (t_records t) - limit) else None)\<rparr>"
      using present by (simp add: view_topic_def Let_def ordered_def)
    have classes: "ordered =
           filter (\<lambda>r. r_importance r = High) (t_records t) @
           filter (\<lambda>r. r_importance r = Medium) (t_records t) @
           filter (\<lambda>r. r_importance r = Low) (t_records t)"
      unfolding ordered_def by (rule sort_by_importance)
    have descending:
      "sorted_wrt (\<lambda>a b. importanceOrder (r_importance b) \<le> importanceOrder (r_importance a)) ordered"
      unfolding ordered_def by (rule js_sort_descending [of ?key])
    have perm: "mset ordered = mset (t_records t)"
      unfolding ordered_def by (rule js_sort_mset [of ?key])
    have stable: "filter (\<lambda>r. r_importance r = i) ordered =
                filter (\<lambda>r. r_importance r = i) (t_records t)" for i
      using js_sort_stable [of ?key "importanceOrder i" "t_records t"]
      by (simp add: ordered_def importanceOrder_inj)
    have "?post t ordered"
      using run classes descending perm stable by blast
    then show "\<exists>ordered. ?post t ordered" ..
  qed
qed

theorem view_topic_by_importance_witness:
  "view_topic [] ByImportance 3 st_mixed = Inl (ValidationError EmptyTopicName) \<and>
   ''Other'' \<noteq> [] \<and> map_of (memoryStore st_mixed) ''Other'' = None \<and>
   view_topic ''Other'' ByImportance 3 st_mixed = Inl (NotFound TopicAbsent) \<and>
   ''Mixed'' \<noteq> [] \<and> map_of (memoryStore st_mixed) ''Mixed'' = Some topic_mixed \<and>
   map_sum id (\<lambda>v. (map r_id (v_displayRecords v), v_totalRecords v, v_notShown v))
     (view_topic ''Mixed'' ByImportance 3 st_mixed) = Inr ([''b'', ''d'', ''c''], 4, Some 1)"
  using view_topic_by_importance [of "[]" ByImportance 3 st_mixed]
    view_topic_by_importance [of "''Other''" ByImportance 3 st_mixed]
    view_topic_by_importance [of "''Mixed''" ByImportance 3 st_mixed]
  by (simp add: st_mixed_def topic_mixed_def view_topic_def Let_def js_sort_def)

section \<open>Failures of the management tool\<close>

text \<open>
  Claim C10. For every case of the management tool and every input, a call that answers
  with a failure or with the preview of a deletion returns the state it was given: the
  store and the five statistics, access count and last access time included, are
  unchanged; and every such answer is one of the listed ones. The statistics change only
  in a call that succeeds and changes the store.
\<close>

theorem manage_error_leaves_state:
  "(\<forall>err. fst (memory_manage e a st) = Inl err \<longrightarrow>
      snd (memory_manage e a st) = st \<and> listed_error err) \<and>
   (memoryStats (snd (memory_manage e a st)) \<noteq> memoryStats st \<longrightarrow>
      (\<exists>ok. fst (memory_manage e a st) = Inr ok) \<and>
      memoryStore (snd (memory_manage e a st)) \<noteq> memoryStore st)"
proof (cases "a_action a")
  case CreateTopic
  then show ?thesis
    using create_topic_error create_topic_touch by (simp add: memory_manage_def)
next
  case CreateRecord
  then show ?thesis
    using create_record_error create_record_touch by (simp add: memory_manage_def)
next
  case UpdateTopic
  then show ?thesis
    using update_topic_error by (simp add: memory_manage_def update_topic_stats)
next
  case UpdateRecord
  then show ?thesis
    using update_record_error by (simp add: memory_manage_def update_record_stats)
next
  case DeleteTopic
  then show ?thesis
    using delete_topic_error delete_topic_touch by (simp add: memory_manage_def)
next
  case DeleteRecord
  then show ?thesis
    using delete_record_error delete_record_touch by (simp add: memory_manage_def)
qed

theorem manage_error_leaves_state_witness:
  "fst (memory_manage env3 args_preview st_one) = Inl (ConfirmationRequired ''d'' [] 1 100) \<and>
   snd (memory_manage env3 args_preview st_one) = st_one \<and>
   listed_error (ConfirmationRequired ''d'' [] 1 100) \<and>
   memoryStats (snd (memory_manage env3 (args_preview\<lparr>a_confirm := True\<rparr>) st_one))
     \<noteq> memoryStats st_one \<and>
   memoryStore (snd (memory_manage env3 (args_preview\<lparr>a_confirm := True\<rparr>) st_one))
     \<noteq> memoryStore st_one"
  using manage_error_leaves_state [of env3 args_preview st_one]
    manage_error_leaves_state [of env3 "args_preview\<lparr>a_confirm := True\<rparr>" st_one]
  by (simp add: eval_manage env3_def args_preview_def listed_error_def)

end
